theory Spec2Isabelle
  imports Complex_Main
begin

section \<open>Shared vocabulary of the two hubs\<close>

text \<open>
  Both programs (\<^verbatim>\<open>main_hub.py\<close> and \<^verbatim>\<open>observer-hub.py\<close>) drive the same hardware
  interface. A colour of \<^verbatim>\<open>pybricks.parameters\<close> is a triple of hue, saturation and
  brightness; the two ports of the hub carry the list \<^verbatim>\<open>self.motors\<close>.
\<close>

datatype Color = Color int int int

datatype Port = PortA | PortB

datatype DeviceType = MOTOR | DC_MOTOR | LIGHT | UNKNOWN | NOT_CONNECTED

text \<open>
  Every call that leaves the program is recorded, in program order, in a list of effects:
  \<^verbatim>\<open>motor.set_speed(v)\<close> and \<^verbatim>\<open>motor.set_light_brightness(v)\<close> on the device of a
  port, \<^verbatim>\<open>hub.light.on(c)\<close>, \<^verbatim>\<open>remote.light.on(c)\<close>, \<^verbatim>\<open>hub.ble.broadcast((speed, light))\<close>
  and \<^verbatim>\<open>wait(ms)\<close>. What the driver object does with the value (scaling by the device's
  maximum speed, direction sign) is behind that interface and is not modelled; console
  output is not modelled either. These calls are taken to return normally.
\<close>

datatype effect =
    MotorSetSpeed Port int
  | MotorSetLight Port int
  | HubLightOn Color
  | RemoteLightOn Color
  | Broadcast int int
  | Wait int

datatype error = ZeroDivisionError | ValueError | OverflowError

section \<open>The observer hub (\<^verbatim>\<open>observer-hub.py\<close>)\<close>

subsection \<open>Received values\<close>

text \<open>
  \<^verbatim>\<open>hub.ble.observe\<close> hands over an arbitrary Python value. A float is its exact value
  when it is finite (no float arithmetic is done on it, only \<^verbatim>\<open>int(x)\<close>), or one of the
  two infinities (\<open>Infinity True\<close> is the negative one), or NaN.
\<close>

datatype pyfloat = Finite rat | Infinity bool | NaN

datatype pyval =
    PyNone
  | PyBool bool
  | PyInt int
  | PyFloat pyfloat
  | PyStr string
  | PyBytes "nat list"
  | PyTuple "pyval list"
  | PyList "pyval list"

text \<open>The call either returns a value (\<open>PyNone\<close> when nothing is pending) or raises.\<close>

datatype observation = Returns pyval | Raises

record ObserverConfiguration =
  observe_channel :: int
  connection_timeout_ms :: int
  observer_initial_light_value :: int
  led_receiving :: Color
  led_not_receiving :: Color
  enable_debug_output :: bool
  max_speed_value :: int
  max_light_value :: int

text \<open>The field defaults of the dataclass, which \<^verbatim>\<open>main()\<close> repeats.\<close>

definition ObserverConfiguration_default :: ObserverConfiguration where
  "ObserverConfiguration_default =
     \<lparr>observe_channel = 1, connection_timeout_ms = 1000,
      observer_initial_light_value = 0,
      led_receiving = Color 120 100 30, led_not_receiving = Color 60 100 50,
      enable_debug_output = True, max_speed_value = 1000, max_light_value = 100\<rparr>"

text \<open>
  A \<^verbatim>\<open>StopWatch\<close> is the clock instant of its last reset; \<^verbatim>\<open>time()\<close> is the clock minus
  that instant. The clock is a field of the hub state, in milliseconds.
\<close>

record BLEDataReceiver =
  last_received_time :: int
  connection_established :: bool

record ObserverHub =
  data_receiver :: BLEDataReceiver
  observer_current_speed :: int
  observer_previous_speed :: int
  current_light_value :: int
  observer_has_lights :: bool
  observer_clock :: int
  observer_effects :: "effect list"

subsection \<open>\<^verbatim>\<open>BLEDataReceiver._validate_data\<close>\<close>

text \<open>\<^verbatim>\<open>isinstance(data, (tuple, list))\<close>, with the items of the sequence.\<close>

fun sequence_items :: "pyval \<Rightarrow> pyval list option" where
  "sequence_items (PyTuple xs) = Some xs"
| "sequence_items (PyList xs) = Some xs"
| "sequence_items _ = None"

text \<open>\<^verbatim>\<open>isinstance(x, (int, float))\<close>: \<^verbatim>\<open>bool\<close> is a subclass of \<^verbatim>\<open>int\<close>.\<close>

fun isinstance_int_float :: "pyval \<Rightarrow> bool" where
  "isinstance_int_float (PyInt _) = True"
| "isinstance_int_float (PyBool _) = True"
| "isinstance_int_float (PyFloat _) = True"
| "isinstance_int_float _ = False"

text \<open>
  \<^verbatim>\<open>int(x)\<close> on such a value: a float is truncated toward zero; NaN raises
  \<^verbatim>\<open>ValueError\<close> and an infinity \<^verbatim>\<open>OverflowError\<close>.
\<close>

definition truncate_toward_zero :: "rat \<Rightarrow> int" where
  "truncate_toward_zero x = (if 0 \<le> x then \<lfloor>x\<rfloor> else \<lceil>x\<rceil>)"

fun py_int :: "pyval \<Rightarrow> error + int" where
  "py_int (PyInt i) = Inr i"
| "py_int (PyBool b) = Inr (if b then 1 else 0)"
| "py_int (PyFloat (Finite x)) = Inr (truncate_toward_zero x)"
| "py_int (PyFloat NaN) = Inl ValueError"
| "py_int (PyFloat (Infinity _)) = Inl OverflowError"
| "py_int _ = Inl ValueError"

text \<open>
  The body of \<^verbatim>\<open>_validate_data\<close>. The \<^verbatim>\<open>except Exception\<close> clause turns an exception of
  \<^verbatim>\<open>int(speed)\<close> or \<^verbatim>\<open>int(light)\<close> into the result \<^verbatim>\<open>None\<close>.
\<close>

definition validate_data :: "ObserverConfiguration \<Rightarrow> pyval \<Rightarrow> (int \<times> int) option" where
  "validate_data config data =
     (case sequence_items data of
        None \<Rightarrow> None
      | Some items \<Rightarrow>
          (case items of
             [speed, light] \<Rightarrow>
               if \<not> isinstance_int_float speed then None
               else if \<not> isinstance_int_float light then None
               else (case py_int speed of
                       Inl e \<Rightarrow> None
                     | Inr speed_int \<Rightarrow>
                         (case py_int light of
                            Inl e \<Rightarrow> None
                          | Inr light_int \<Rightarrow>
                              Some (max (- max_speed_value config)
                                      (min (max_speed_value config) speed_int),
                                    max 0 (min (max_light_value config) light_int))))
           | _ \<Rightarrow> None))"

subsection \<open>\<^verbatim>\<open>BLEDataReceiver.receive_data\<close> and \<^verbatim>\<open>is_connected\<close>\<close>

definition receive_data ::
  "ObserverConfiguration \<Rightarrow> observation \<Rightarrow> ObserverHub \<Rightarrow> (int \<times> int) option \<times> ObserverHub" where
  "receive_data config obs s =
     (case obs of
        Raises \<Rightarrow> (None, s)
      | Returns data \<Rightarrow>
          if data = PyNone then
            (None,
             if connection_established (data_receiver s)
             then s\<lparr>data_receiver := (data_receiver s)\<lparr>connection_established := False\<rparr>\<rparr>
             else s)
          else
            (validate_data config data,
             s\<lparr>data_receiver :=
                 \<lparr>last_received_time = observer_clock s, connection_established = True\<rparr>\<rparr>))"

definition is_connected :: "ObserverConfiguration \<Rightarrow> ObserverHub \<Rightarrow> bool" where
  "is_connected config s \<longleftrightarrow>
     connection_established (data_receiver s) \<and>
     observer_clock s - last_received_time (data_receiver s) < connection_timeout_ms config"

subsection \<open>\<^verbatim>\<open>ObserverHub\<close>\<close>

definition observer_wait :: "int \<Rightarrow> ObserverHub \<Rightarrow> ObserverHub" where
  "observer_wait ms s =
     s\<lparr>observer_clock := observer_clock s + max 0 ms,
       observer_effects := observer_effects s @ [Wait ms]\<rparr>"


definition observer_update_motor_speeds :: "int \<Rightarrow> ObserverHub \<Rightarrow> ObserverHub" where
  "observer_update_motor_speeds speed s =
     (if speed \<noteq> observer_previous_speed s
      then s\<lparr>observer_effects :=
                observer_effects s @ [MotorSetSpeed PortA speed, MotorSetSpeed PortB speed],
              observer_previous_speed := speed\<rparr>
      else s)"

definition update_lights :: "int \<Rightarrow> ObserverHub \<Rightarrow> ObserverHub" where
  "update_lights light_value s =
     (if light_value \<noteq> current_light_value s \<and> observer_has_lights s
      then s\<lparr>observer_effects :=
                observer_effects s @ [MotorSetLight PortA light_value, MotorSetLight PortB light_value],
              current_light_value := light_value\<rparr>
      else s)"

definition update_connection_status ::
  "ObserverConfiguration \<Rightarrow> bool \<Rightarrow> ObserverHub \<Rightarrow> ObserverHub" where
  "update_connection_status config is_up s =
     s\<lparr>observer_effects := observer_effects s @
         [HubLightOn (if is_up then led_receiving config else led_not_receiving config)]\<rparr>"

text \<open>
  \<^verbatim>\<open>ObserverHub.__init__\<close> with \<^verbatim>\<open>_initialize_devices\<close>: \<open>detect\<close> is what
  \<^verbatim>\<open>detect_and_initialize\<close> finds on each port.
\<close>

definition observer_initialize_device ::
  "(Port \<Rightarrow> DeviceType) \<Rightarrow> Port \<Rightarrow> ObserverHub \<Rightarrow> ObserverHub" where
  "observer_initialize_device detect port s =
     (if detect port = LIGHT
      then s\<lparr>observer_has_lights := True,
              observer_effects := observer_effects s @ [MotorSetLight port (current_light_value s)]\<rparr>
      else s)"

definition ObserverHub_init :: "ObserverConfiguration \<Rightarrow> (Port \<Rightarrow> DeviceType) \<Rightarrow> ObserverHub" where
  "ObserverHub_init config detect =
     observer_initialize_device detect PortB
       (observer_initialize_device detect PortA
          \<lparr>data_receiver = \<lparr>last_received_time = 0, connection_established = False\<rparr>,
           observer_current_speed = 0,
           observer_previous_speed = 0,
           current_light_value = observer_initial_light_value config,
           observer_has_lights = False,
           observer_clock = 0,
           observer_effects = []\<rparr>)"

text \<open>One pass through the body of the \<^verbatim>\<open>while True\<close> loop of \<^verbatim>\<open>ObserverHub.run\<close>.\<close>

definition run_iteration ::
  "ObserverConfiguration \<Rightarrow> observation \<Rightarrow> ObserverHub \<Rightarrow> ObserverHub" where
  "run_iteration config obs s =
     (let (received_data, s1) = receive_data config obs s;
          is_up = is_connected config s1;
          s2 = update_connection_status config is_up s1;
          s3 = (case received_data of
                  Some (speed, light_value) \<Rightarrow>
                    update_lights light_value (observer_update_motor_speeds speed s2)
                | None \<Rightarrow>
                    if is_up then s2
                    else if observer_current_speed s2 \<noteq> 0
                         then observer_update_motor_speeds 0 s2
                         else s2)
      in observer_wait 10 s3)"

text \<open>
  The loop never ends; its finite prefixes are the runs over a list of what
  \<^verbatim>\<open>observe\<close> delivers in each pass.
\<close>

fun run_iterations ::
  "ObserverConfiguration \<Rightarrow> observation list \<Rightarrow> ObserverHub \<Rightarrow> ObserverHub" where
  "run_iterations config [] s = s"
| "run_iterations config (obs # rest) s = run_iterations config rest (run_iteration config obs s)"

definition observer_run ::
  "ObserverConfiguration \<Rightarrow> (Port \<Rightarrow> DeviceType) \<Rightarrow> observation list \<Rightarrow> ObserverHub" where
  "observer_run config detect observations =
     run_iterations config observations
       (update_connection_status config False (ObserverHub_init config detect))"

section \<open>The primary hub (\<^verbatim>\<open>main_hub.py\<close>)\<close>

text \<open>
  \<^verbatim>\<open>main-hub.py\<close> is the same program without the blinking indicator: its
  \<^verbatim>\<open>_accelerate\<close>, \<^verbatim>\<open>_update_motor_speeds\<close> and \<^verbatim>\<open>_handle_light_control\<close> are
  literally those of \<^verbatim>\<open>main_hub.py\<close>, and its \<^verbatim>\<open>_get_led_color_for_speed\<close> is the one
  below with \<open>blink_profile_when_stopped\<close> switched off.
\<close>

subsection \<open>Configuration\<close>

datatype ButtonAction = A_PLUS | A_MINUS | A_STOP | B_PLUS | B_MINUS | B_STOP | CENTER

text \<open>The members of \<^verbatim>\<open>pybricks.parameters.Button\<close> that the remote has.\<close>

datatype Button =
  LEFT_PLUS | LEFT_MINUS | LEFT | RIGHT_PLUS | RIGHT_MINUS | RIGHT | CENTER_BUTTON

text \<open>
  The keys of the dictionary \<^verbatim>\<open>button_mapping\<close>, which \<^verbatim>\<open>Configuration.__init__\<close>
  builds with all seven keys: \<^verbatim>\<open>'UP'\<close>, \<^verbatim>\<open>'DOWN'\<close>, \<^verbatim>\<open>'STOP'\<close>, \<^verbatim>\<open>'SWITCH'\<close>,
  \<^verbatim>\<open>'B_UP'\<close>, \<^verbatim>\<open>'B_DOWN'\<close>, \<^verbatim>\<open>'B_STOP'\<close>.
\<close>

datatype MappingKey = KEY_UP | KEY_DOWN | KEY_STOP | KEY_SWITCH | KEY_B_UP | KEY_B_DOWN | KEY_B_STOP

record MotorProfile =
  min_speed :: int
  max_speed :: int
  acceleration_step :: int
  acceleration_delay :: int

record SpeedLEDConfig =
  stopped :: Color
  slow :: Color
  medium :: Color
  fast :: Color
  profile_indicator :: "Color option"
  slow_threshold :: int
  medium_threshold :: int
  blink_interval_ms :: int

record Configuration =
  profile_a :: MotorProfile
  profile_b :: MotorProfile
  auto_acceleration :: bool
  watchdog_enabled :: bool
  should_broadcast :: bool
  initial_light_value :: int
  button_mapping :: "MappingKey \<Rightarrow> ButtonAction"
  led_speed_profile_a :: SpeedLEDConfig
  led_speed_profile_b :: SpeedLEDConfig
  use_speed_based_leds :: bool
  blink_profile_when_stopped :: bool

fun default_button_mapping :: "MappingKey \<Rightarrow> ButtonAction" where
  "default_button_mapping KEY_UP = A_PLUS"
| "default_button_mapping KEY_DOWN = A_MINUS"
| "default_button_mapping KEY_STOP = A_STOP"
| "default_button_mapping KEY_SWITCH = CENTER"
| "default_button_mapping KEY_B_UP = B_PLUS"
| "default_button_mapping KEY_B_DOWN = B_MINUS"
| "default_button_mapping KEY_B_STOP = B_STOP"

text \<open>\<^verbatim>\<open>Configuration.__init__\<close> of \<^verbatim>\<open>main_hub.py\<close>.\<close>

definition Configuration_init :: Configuration where
  "Configuration_init =
     \<lparr>profile_a = \<lparr>min_speed = 20, max_speed = 100, acceleration_step = 10, acceleration_delay = 100\<rparr>,
      profile_b = \<lparr>min_speed = 10, max_speed = 500, acceleration_step = 5, acceleration_delay = 200\<rparr>,
      auto_acceleration = True,
      watchdog_enabled = False,
      should_broadcast = True,
      initial_light_value = 0,
      button_mapping = default_button_mapping,
      led_speed_profile_a =
        \<lparr>stopped = Color 0 0 20, slow = Color 60 100 50, medium = Color 30 100 50,
         fast = Color 0 100 70, profile_indicator = Some (Color 120 100 60),
         slow_threshold = 30, medium_threshold = 60, blink_interval_ms = 500\<rparr>,
      led_speed_profile_b =
        \<lparr>stopped = Color 0 0 20, slow = Color 240 100 50, medium = Color 300 100 50,
         fast = Color 270 100 70, profile_indicator = Some (Color 0 100 60),
         slow_threshold = 20, medium_threshold = 50, blink_interval_ms = 500\<rparr>,
      use_speed_based_leds = True,
      blink_profile_when_stopped = True\<rparr>"

subsection \<open>\<^verbatim>\<open>Timer\<close>\<close>

text \<open>
  \<open>stopwatch\<close> is the clock instant of the last \<^verbatim>\<open>stopwatch.reset()\<close>; the clock reading
  is passed in as \<open>now\<close>.
\<close>

record Timer =
  active :: bool
  target_time :: int
  stopwatch :: int

definition Timer_start :: "int \<Rightarrow> int \<Rightarrow> Timer \<Rightarrow> Timer" where
  "Timer_start duration_ms now t =
     (if \<not> active t then t\<lparr>active := True, stopwatch := now, target_time := duration_ms\<rparr> else t)"

definition Timer_check :: "int \<Rightarrow> Timer \<Rightarrow> bool \<times> Timer" where
  "Timer_check now t =
     (if active t \<and> now - stopwatch t > target_time t
      then (True, t\<lparr>active := False, target_time := 0\<rparr>)
      else (False, t))"

definition Timer_reset :: "Timer \<Rightarrow> Timer" where
  "Timer_reset t = t\<lparr>active := False, target_time := 0\<rparr>"

subsection \<open>The remote and the system state\<close>

text \<open>
  The remote is the environment: the \<open>k\<close>-th call of \<^verbatim>\<open>remote.buttons.pressed()\<close> returns
  the buttons held at that moment, or raises \<^verbatim>\<open>OSError\<close>. The state counts the calls
  made so far in \<open>polls\<close>.
\<close>

datatype poll = Pressed "Button list" | PollOSError

type_synonym remote_env = "nat \<Rightarrow> poll"

fun BUTTON_MAP :: "ButtonAction \<Rightarrow> Button" where
  "BUTTON_MAP A_PLUS = LEFT_PLUS"
| "BUTTON_MAP A_MINUS = LEFT_MINUS"
| "BUTTON_MAP A_STOP = LEFT"
| "BUTTON_MAP B_PLUS = RIGHT_PLUS"
| "BUTTON_MAP B_MINUS = RIGHT_MINUS"
| "BUTTON_MAP B_STOP = RIGHT"
| "BUTTON_MAP CENTER = CENTER_BUTTON"

text \<open>
  The fields of \<^verbatim>\<open>MotorControlSystem\<close> that the control logic reads and writes, with
  \<^verbatim>\<open>remote_controller.connected\<close>, whether \<^verbatim>\<open>remote_controller.remote\<close> is set, the clock
  and the effects so far.
\<close>

record MotorControlSystem =
  current_speed :: int
  previous_speed :: int
  current_profile :: int
  light_value :: int
  has_lights :: bool
  led_blink_state :: bool
  blink_timer :: Timer
  remote_connected :: bool
  remote_present :: bool
  polls :: nat
  clock :: int
  effects :: "effect list"

definition wait :: "int \<Rightarrow> MotorControlSystem \<Rightarrow> MotorControlSystem" where
  "wait ms s = s\<lparr>clock := clock s + max 0 ms, effects := effects s @ [Wait ms]\<rparr>"

definition initialize_device ::
  "(Port \<Rightarrow> DeviceType) \<Rightarrow> Port \<Rightarrow> MotorControlSystem \<Rightarrow> MotorControlSystem" where
  "initialize_device detect port s =
     (if detect port = LIGHT
      then s\<lparr>has_lights := True, effects := effects s @ [MotorSetLight port (light_value s)]\<rparr>
      else s)"

definition MotorControlSystem_init ::
  "Configuration \<Rightarrow> (Port \<Rightarrow> DeviceType) \<Rightarrow> MotorControlSystem" where
  "MotorControlSystem_init config detect =
     initialize_device detect PortB
       (initialize_device detect PortA
          \<lparr>current_speed = 0,
           previous_speed = 0,
           current_profile = 1,
           light_value = initial_light_value config,
           has_lights = False,
           led_blink_state = False,
           blink_timer = \<lparr>active = False, target_time = 0, stopwatch = 0\<rparr>,
           remote_connected = False,
           remote_present = False,
           polls = 0,
           clock = 0,
           effects = []\<rparr>)"

text \<open>\<^verbatim>\<open>RemoteController.connect\<close>; \<open>found\<close> says whether \<^verbatim>\<open>Remote(...)\<close> returns.\<close>

definition connect :: "bool \<Rightarrow> MotorControlSystem \<Rightarrow> bool \<times> MotorControlSystem" where
  "connect found s =
     (if found then (True, s\<lparr>remote_present := True, remote_connected := True\<rparr>)
      else (False, s\<lparr>remote_connected := False\<rparr>))"

definition is_button_pressed ::
  "remote_env \<Rightarrow> ButtonAction \<Rightarrow> MotorControlSystem \<Rightarrow> bool \<times> MotorControlSystem" where
  "is_button_pressed env action s =
     (if \<not> remote_connected s \<or> \<not> remote_present s then (False, s)
      else (case env (polls s) of
              Pressed pressed_buttons \<Rightarrow>
                (BUTTON_MAP action \<in> set pressed_buttons, s\<lparr>polls := Suc (polls s)\<rparr>)
            | PollOSError \<Rightarrow>
                (False, s\<lparr>remote_connected := False, polls := Suc (polls s)\<rparr>)))"

definition set_led :: "Color \<Rightarrow> MotorControlSystem \<Rightarrow> MotorControlSystem" where
  "set_led color s =
     (if remote_connected s \<and> remote_present s
      then s\<lparr>effects := effects s @ [RemoteLightOn color]\<rparr>
      else s)"

definition broadcast_data :: "MotorControlSystem \<Rightarrow> MotorControlSystem" where
  "broadcast_data s = s\<lparr>effects := effects s @ [Broadcast (current_speed s) (light_value s)]\<rparr>"

subsection \<open>LED colour\<close>

definition get_current_profile :: "Configuration \<Rightarrow> MotorControlSystem \<Rightarrow> MotorProfile" where
  "get_current_profile config s =
     (if current_profile s = 1 then profile_a config else profile_b config)"

definition get_current_speed_led_config ::
  "Configuration \<Rightarrow> MotorControlSystem \<Rightarrow> SpeedLEDConfig" where
  "get_current_speed_led_config config s =
     (if current_profile s = 1 then led_speed_profile_a config else led_speed_profile_b config)"

definition get_stopped_led_color ::
  "SpeedLEDConfig \<Rightarrow> MotorControlSystem \<Rightarrow> Color \<times> MotorControlSystem" where
  "get_stopped_led_color speed_config s =
     (let (elapsed, t1) = Timer_check (clock s) (blink_timer s);
          s1 = s\<lparr>blink_timer := t1,
                 led_blink_state := (if elapsed then \<not> led_blink_state s else led_blink_state s)\<rparr>;
          s2 = (if \<not> active (blink_timer s1)
                then s1\<lparr>blink_timer :=
                          Timer_start (blink_interval_ms speed_config) (clock s1) (blink_timer s1)\<rparr>
                else s1)
      in (if led_blink_state s2
          then (case profile_indicator speed_config of
                  None \<Rightarrow> fast speed_config
                | Some profile_color \<Rightarrow> profile_color)
          else stopped speed_config,
          s2))"

text \<open>
  \<^verbatim>\<open>speed_percentage = (abs_speed / profile.max_speed) * 100\<close> is computed in binary
  floating point. The value of that float expression is the parameter \<open>pct\<close>, applied to
  \<open>abs_speed\<close> and \<open>max_speed\<close>; the division raises when \<open>max_speed\<close> is 0. Comparing a
  float with an integer threshold is exact.
\<close>

definition get_led_color_for_speed ::
  "(int \<Rightarrow> int \<Rightarrow> rat) \<Rightarrow> Configuration \<Rightarrow> int \<Rightarrow> MotorControlSystem \<Rightarrow>
     error + (Color \<times> MotorControlSystem)" where
  "get_led_color_for_speed pct config speed s =
     (if \<not> use_speed_based_leds config
      then Inr (if current_profile s = 1 then Color 120 100 30 else Color 0 100 50, s)
      else
        let speed_config = get_current_speed_led_config config s;
            profile = get_current_profile config s;
            abs_speed = \<bar>speed\<bar>
        in if abs_speed = 0
           then (if blink_profile_when_stopped config
                 then Inr (get_stopped_led_color speed_config s)
                 else Inr (stopped speed_config, s))
           else if max_speed profile = 0 then Inl ZeroDivisionError
           else
             let speed_percentage = pct abs_speed (max_speed profile)
             in if speed_percentage \<le> of_int (slow_threshold speed_config)
                then Inr (slow speed_config, s)
                else if speed_percentage \<le> of_int (medium_threshold speed_config)
                then Inr (medium speed_config, s)
                else Inr (fast speed_config, s))"

subsection \<open>\<^verbatim>\<open>_update_motor_speeds\<close>\<close>

definition update_motor_speeds ::
  "(int \<Rightarrow> int \<Rightarrow> rat) \<Rightarrow> Configuration \<Rightarrow> MotorControlSystem \<Rightarrow> error + MotorControlSystem" where
  "update_motor_speeds pct config s =
     (if current_speed s \<noteq> previous_speed s
      then
        let s1 = s\<lparr>effects := effects s @
                      [MotorSetSpeed PortA (current_speed s), MotorSetSpeed PortB (current_speed s)],
                   previous_speed := current_speed s\<rparr>
        in case (if remote_connected s1
                 then (case get_led_color_for_speed pct config (current_speed s1) s1 of
                         Inl e \<Rightarrow> Inl e
                       | Inr (led_color, s2) \<Rightarrow> Inr (set_led led_color s2))
                 else Inr s1) of
             Inl e \<Rightarrow> Inl e
           | Inr s3 \<Rightarrow> Inr (if should_broadcast config then broadcast_data s3 else s3)
      else Inr s)"

subsection \<open>\<^verbatim>\<open>_accelerate\<close>\<close>

text \<open>The two blocks of a tick that follow \<^verbatim>\<open>self.current_speed += direction\<close>.\<close>

definition apply_speed_limits :: "MotorProfile \<Rightarrow> int \<Rightarrow> int" where
  "apply_speed_limits profile v =
     (if v > max_speed profile then max_speed profile
      else if v < - max_speed profile then - max_speed profile
      else v)"

definition apply_minimum_speed_threshold :: "MotorProfile \<Rightarrow> int \<Rightarrow> int \<Rightarrow> int" where
  "apply_minimum_speed_threshold profile direction v =
     (if 0 < \<bar>v\<bar> \<and> \<bar>v\<bar> < min_speed profile
      then min_speed profile * (if direction > 0 then 1 else - 1)
      else if \<bar>v\<bar> < min_speed profile then 0
      else v)"

text \<open>The speed that one tick leaves in \<^verbatim>\<open>self.current_speed\<close>.\<close>

definition tick_speed :: "MotorProfile \<Rightarrow> int \<Rightarrow> int \<Rightarrow> int" where
  "tick_speed profile direction v =
     apply_minimum_speed_threshold profile direction
       (apply_speed_limits profile (v + direction))"

text \<open>One pass through the body of the \<^verbatim>\<open>for\<close> loop, up to and including the \<^verbatim>\<open>wait\<close>.\<close>

definition accelerate_tick ::
  "(int \<Rightarrow> int \<Rightarrow> rat) \<Rightarrow> Configuration \<Rightarrow> MotorProfile \<Rightarrow> int \<Rightarrow> MotorControlSystem \<Rightarrow>
     error + MotorControlSystem" where
  "accelerate_tick pct config profile direction s =
     (case update_motor_speeds pct config
             (s\<lparr>current_speed := tick_speed profile direction (current_speed s)\<rparr>) of
        Inl e \<Rightarrow> Inl e
      | Inr s1 \<Rightarrow> Inr (wait (acceleration_delay profile) s1))"

text \<open>
  \<^verbatim>\<open>for _ in range(profile.acceleration_step)\<close> with its \<^verbatim>\<open>break\<close>; the first argument is
  the number of passes left.
\<close>

fun accelerate_loop ::
  "nat \<Rightarrow> (int \<Rightarrow> int \<Rightarrow> rat) \<Rightarrow> Configuration \<Rightarrow> MotorProfile \<Rightarrow> int \<Rightarrow> MotorControlSystem \<Rightarrow>
     error + MotorControlSystem" where
  "accelerate_loop 0 pct config profile direction s = Inr s"
| "accelerate_loop (Suc n) pct config profile direction s =
     (case accelerate_tick pct config profile direction s of
        Inl e \<Rightarrow> Inl e
      | Inr s1 \<Rightarrow>
          if current_speed s1 = 0 then Inr s1
          else accelerate_loop n pct config profile direction s1)"

text \<open>
  \<^verbatim>\<open>while self.remote_controller.is_button_pressed(button_action): wait(100)\<close>. The loop
  runs for as long as the operator holds the button: not returning is the value \<open>None\<close>.
\<close>

partial_function (option) wait_for_release ::
  "remote_env \<Rightarrow> ButtonAction \<Rightarrow> MotorControlSystem \<Rightarrow> MotorControlSystem option" where
  "wait_for_release env button_action s =
     (case is_button_pressed env button_action s of
        (pressed, s1) \<Rightarrow>
          if pressed then wait_for_release env button_action (wait 100 s1) else Some s1)"

definition accelerate ::
  "(int \<Rightarrow> int \<Rightarrow> rat) \<Rightarrow> remote_env \<Rightarrow> Configuration \<Rightarrow> MotorProfile \<Rightarrow> int \<Rightarrow>
     MotorControlSystem \<Rightarrow> (error + MotorControlSystem) option" where
  "accelerate pct env config profile direction s =
     (case accelerate_loop (nat (acceleration_step profile)) pct config profile direction s of
        Inl e \<Rightarrow> Some (Inl e)
      | Inr s1 \<Rightarrow>
          let button_action =
                (if direction > 0 then button_mapping config KEY_UP
                 else button_mapping config KEY_DOWN)
          in case (if \<not> auto_acceleration config
                   then wait_for_release env button_action s1 else Some s1) of
               None \<Rightarrow> None
             | Some s2 \<Rightarrow>
                 (case (if current_speed s2 = 0
                        then wait_for_release env button_action s2 else Some s2) of
                    None \<Rightarrow> None
                  | Some s3 \<Rightarrow> Some (Inr s3)))"

text \<open>The operator's test: \<open>k\<close> calls of \<^verbatim>\<open>_accelerate\<close> in a row.\<close>

fun accelerate_calls ::
  "nat \<Rightarrow> (int \<Rightarrow> int \<Rightarrow> rat) \<Rightarrow> remote_env \<Rightarrow> Configuration \<Rightarrow> MotorProfile \<Rightarrow> int \<Rightarrow>
     MotorControlSystem \<Rightarrow> (error + MotorControlSystem) option" where
  "accelerate_calls 0 pct env config profile direction s = Some (Inr s)"
| "accelerate_calls (Suc k) pct env config profile direction s =
     (case accelerate pct env config profile direction s of
        Some (Inr s1) \<Rightarrow> accelerate_calls k pct env config profile direction s1
      | r \<Rightarrow> r)"

subsection \<open>\<^verbatim>\<open>_handle_light_control\<close>\<close>

text \<open>The block under \<^verbatim>\<open>if wait_time > 0\<close>.\<close>

definition light_control_settle ::
  "Configuration \<Rightarrow> int \<Rightarrow> MotorControlSystem \<Rightarrow> MotorControlSystem" where
  "light_control_settle config wait_time s =
     (if wait_time > 0
      then
        let s1 = (if should_broadcast config then broadcast_data s else s);
            s2 = (if has_lights s1
                  then s1\<lparr>effects := effects s1 @
                            [MotorSetLight PortA (light_value s1), MotorSetLight PortB (light_value s1)]\<rparr>
                  else s1)
        in wait wait_time s2
      else s)"

text \<open>
  \<^verbatim>\<open>a and not b\<close> reads \<^verbatim>\<open>b\<close> only when \<^verbatim>\<open>a\<close> holds, and every read is a fresh poll of
  the remote.
\<close>

definition pressed_and_not ::
  "remote_env \<Rightarrow> ButtonAction \<Rightarrow> ButtonAction \<Rightarrow> MotorControlSystem \<Rightarrow> bool \<times> MotorControlSystem" where
  "pressed_and_not env a b s =
     (case is_button_pressed env a s of
        (pa, s1) \<Rightarrow>
          if pa then (case is_button_pressed env b s1 of (pb, s2) \<Rightarrow> (\<not> pb, s2))
          else (False, s1))"

definition handle_light_control ::
  "remote_env \<Rightarrow> Configuration \<Rightarrow> MotorControlSystem \<Rightarrow> MotorControlSystem" where
  "handle_light_control env config s =
     (let button_map = button_mapping config
      in case pressed_and_not env (button_map KEY_B_UP) (button_map KEY_B_STOP) s of
           (up, s1) \<Rightarrow>
             if up
             then light_control_settle config 100
                    (s1\<lparr>light_value := min 100 (light_value s1 + 10)\<rparr>)
             else (case pressed_and_not env (button_map KEY_B_DOWN) (button_map KEY_B_STOP) s1 of
                     (down, s2) \<Rightarrow>
                       if down
                       then light_control_settle config 100
                              (s2\<lparr>light_value := max 0 (light_value s2 - 10)\<rparr>)
                       else (case is_button_pressed env (button_map KEY_B_STOP) s2 of
                               (toggle, s3) \<Rightarrow>
                                 if toggle
                                 then light_control_settle config 300
                                        (s3\<lparr>light_value := (if light_value s3 = 0 then 100 else 0)\<rparr>)
                                 else light_control_settle config 0 s3)))"

section \<open>Notions used in the statements, and the states of the examples\<close>


text \<open>
  A speed is legal for a profile when its magnitude
  is at most \<open>max_speed\<close> and not strictly between 0 and \<open>min_speed\<close>.
\<close>

definition speed_legal :: "MotorProfile \<Rightarrow> int \<Rightarrow> bool" where
  "speed_legal profile v \<longleftrightarrow>
     \<bar>v\<bar> \<le> max_speed profile \<and> \<not> (0 < \<bar>v\<bar> \<and> \<bar>v\<bar> < min_speed profile)"

text \<open>
  The speed that the \<^verbatim>\<open>for\<close> loop of \<^verbatim>\<open>_accelerate\<close> leaves after at most \<open>n\<close> ticks
  from speed \<open>v\<close>, stopping early at 0.
\<close>

fun loop_speed :: "nat \<Rightarrow> MotorProfile \<Rightarrow> int \<Rightarrow> int \<Rightarrow> int" where
  "loop_speed 0 profile direction v = v"
| "loop_speed (Suc n) profile direction v =
     (if tick_speed profile direction v = 0 then 0
      else loop_speed n profile direction (tick_speed profile direction v))"

text \<open>
  What one recognised light action sends out after it has set \<open>light_value\<close>: at most one
  broadcast, the new brightness to the lights if there are any, and one settle delay.
\<close>

definition settle_effects :: "Configuration \<Rightarrow> MotorControlSystem \<Rightarrow> int \<Rightarrow> effect list" where
  "settle_effects config s wait_time =
     (if should_broadcast config then [Broadcast (current_speed s) (light_value s)] else [])
     @ (if has_lights s
        then [MotorSetLight PortA (light_value s), MotorSetLight PortB (light_value s)] else [])
     @ [Wait wait_time]"

text \<open>
  The primary hub after \<^verbatim>\<open>__init__\<close> and a successful \<^verbatim>\<open>connect\<close>, with the configuration
  of \<^verbatim>\<open>main_hub.py\<close> and a train motor on each port; and a remote on which no button is
  ever held.
\<close>

definition primary_start :: MotorControlSystem where
  "primary_start =
     snd (connect True (MotorControlSystem_init Configuration_init (\<lambda>port. DC_MOTOR)))"

definition idle_remote :: remote_env where
  "idle_remote = (\<lambda>k. Pressed [])"

text \<open>The exact value of \<^verbatim>\<open>(abs_speed / max_speed) * 100\<close>, used as \<open>pct\<close> in examples.\<close>

definition exact_pct :: "int \<Rightarrow> int \<Rightarrow> rat" where
  "exact_pct abs_speed max_sp = of_int abs_speed / of_int max_sp * 100"


text \<open>A stopped hub whose blink timer, started at 0 for 500 ms, is read at 501 ms.\<close>

definition blink_due :: MotorControlSystem where
  "blink_due =
     primary_start\<lparr>blink_timer := \<lparr>active = True, target_time = 500, stopwatch = 0\<rparr>, clock := 501\<rparr>"

text \<open>A remote on which the right plus button (\<^verbatim>\<open>B+\<close>, mapped to \<^verbatim>\<open>'B_UP'\<close>) is held.\<close>

definition brighter_held :: remote_env where
  "brighter_held = (\<lambda>k. Pressed [RIGHT_PLUS])"

section \<open>Properties of the observer hub\<close>

subsection \<open>The validator\<close>

lemma py_int_Inr_numeric: "py_int v = Inr x \<Longrightarrow> isinstance_int_float v"
  by (cases v rule: py_int.cases) auto

lemma numeric_cases:
  "isinstance_int_float v \<Longrightarrow>
     v = PyFloat NaN \<or> (\<exists>b. v = PyFloat (Infinity b)) \<or> (\<exists>x. py_int v = Inr x)"
  by (cases v rule: py_int.cases) auto

lemma validate_data_pair:
  "data = PyTuple [a, b] \<or> data = PyList [a, b] \<Longrightarrow>
   validate_data config data =
     (if \<not> isinstance_int_float a \<or> \<not> isinstance_int_float b then None
      else case py_int a of Inl e \<Rightarrow> None
           | Inr x \<Rightarrow> (case py_int b of Inl e \<Rightarrow> None
               | Inr y \<Rightarrow> Some (max (- max_speed_value config) (min (max_speed_value config) x),
                               max 0 (min (max_light_value config) y))))"
  by (auto simp: validate_data_def)

lemma validate_data_not_pair:
  assumes "\<nexists>a b. data = PyTuple [a, b] \<or> data = PyList [a, b]"
  shows "validate_data config data = None"
proof (cases "sequence_items data")
  case None
  then show ?thesis by (simp add: validate_data_def)
next
  case (Some items)
  then have d: "data = PyTuple items \<or> data = PyList items"
    by (cases data) auto
  with assms have "\<nexists>a b. items = [a, b]" by auto
  then show ?thesis using Some
    by (auto simp: validate_data_def split: list.splits)
qed

text \<open>
  Claim C5, as stated, promises the clamped pair for every well-formed numeric pair. A pair
  whose speed is the float \<open>+inf\<close> is a pair of numbers, yet \<^verbatim>\<open>int(speed)\<close> raises
  \<^verbatim>\<open>OverflowError\<close>, the \<^verbatim>\<open>except\<close> clause catches it, and the result is \<^verbatim>\<open>None\<close>
  instead of the saturated speed.
\<close>

theorem validate_data_rejects_infinite_speed:
  "isinstance_int_float (PyFloat (Infinity False)) \<and> isinstance_int_float (PyInt 0) \<and>
   validate_data ObserverConfiguration_default (PyTuple [PyFloat (Infinity False), PyInt 0]) = None"
  by (simp add: validate_data_def)

text \<open>
  Claim C5, amended: \<^verbatim>\<open>_validate_data\<close> returns \<^verbatim>\<open>None\<close> when the input is not a tuple or
  list of exactly two elements, when one of the two elements is not an \<^verbatim>\<open>int\<close> or
  \<^verbatim>\<open>float\<close> (a \<^verbatim>\<open>bool\<close> is an \<^verbatim>\<open>int\<close>), and when one of them is NaN or an infinite
  float. For every other input, a pair of finite numbers, it returns the pair truncated
  toward zero to integers, the speed clamped by \<open>max (- max_speed_value) (min max_speed_value x)\<close>
  and the light by \<open>max 0 (min max_light_value y)\<close>; for non-negative bounds these lie in
  \<open>[- max_speed_value, max_speed_value]\<close> and \<open>[0, max_light_value]\<close>, a value inside
  the range is returned unchanged and a speed beyond it is saturated.
\<close>

theorem validate_data_contract:
  "((\<nexists>a b. data = PyTuple [a, b] \<or> data = PyList [a, b]) \<longrightarrow> validate_data config data = None)
   \<and> (\<forall>a b. data = PyTuple [a, b] \<or> data = PyList [a, b] \<longrightarrow>
        (\<not> isinstance_int_float a \<or> \<not> isinstance_int_float b \<longrightarrow> validate_data config data = None)
      \<and> (a = PyFloat NaN \<or> b = PyFloat NaN \<or> (\<exists>n. a = PyFloat (Infinity n)) \<or> (\<exists>n. b = PyFloat (Infinity n))
           \<longrightarrow> validate_data config data = None)
      \<and> (\<forall>x y. py_int a = Inr x \<and> py_int b = Inr y \<longrightarrow>
            (\<exists>speed light. validate_data config data = Some (speed, light)
               \<and> speed = max (- max_speed_value config) (min (max_speed_value config) x)
               \<and> light = max 0 (min (max_light_value config) y)
               \<and> (0 \<le> max_speed_value config \<longrightarrow>
                    - max_speed_value config \<le> speed \<and> speed \<le> max_speed_value config
                    \<and> (\<bar>x\<bar> \<le> max_speed_value config \<longrightarrow> speed = x)
                    \<and> (max_speed_value config < x \<longrightarrow> speed = max_speed_value config)
                    \<and> (x < - max_speed_value config \<longrightarrow> speed = - max_speed_value config))
               \<and> (0 \<le> max_light_value config \<longrightarrow>
                    0 \<le> light \<and> light \<le> max_light_value config
                    \<and> (0 \<le> y \<and> y \<le> max_light_value config \<longrightarrow> light = y)))))"
proof (intro conjI allI impI)
  assume "\<nexists>a b. data = PyTuple [a, b] \<or> data = PyList [a, b]"
  then show "validate_data config data = None" by (rule validate_data_not_pair)
next
  fix a b
  assume "data = PyTuple [a, b] \<or> data = PyList [a, b]"
    and "\<not> isinstance_int_float a \<or> \<not> isinstance_int_float b"
  then show "validate_data config data = None" by (simp add: validate_data_pair)
next
  fix a b
  assume "data = PyTuple [a, b] \<or> data = PyList [a, b]"
    and "a = PyFloat NaN \<or> b = PyFloat NaN \<or> (\<exists>n. a = PyFloat (Infinity n)) \<or> (\<exists>n. b = PyFloat (Infinity n))"
  then show "validate_data config data = None"
    by (auto simp: validate_data_pair split: sum.splits)
next
  fix a b x y
  assume d: "data = PyTuple [a, b] \<or> data = PyList [a, b]"
    and xy: "py_int a = Inr x \<and> py_int b = Inr y"
  from xy have "isinstance_int_float a" "isinstance_int_float b"
    by (auto dest: py_int_Inr_numeric)
  with d xy have "validate_data config data =
      Some (max (- max_speed_value config) (min (max_speed_value config) x),
            max 0 (min (max_light_value config) y))"
    by (simp add: validate_data_pair)
  then show "\<exists>speed light. validate_data config data = Some (speed, light)
               \<and> speed = max (- max_speed_value config) (min (max_speed_value config) x)
               \<and> light = max 0 (min (max_light_value config) y)
               \<and> (0 \<le> max_speed_value config \<longrightarrow>
                    - max_speed_value config \<le> speed \<and> speed \<le> max_speed_value config
                    \<and> (\<bar>x\<bar> \<le> max_speed_value config \<longrightarrow> speed = x)
                    \<and> (max_speed_value config < x \<longrightarrow> speed = max_speed_value config)
                    \<and> (x < - max_speed_value config \<longrightarrow> speed = - max_speed_value config))
               \<and> (0 \<le> max_light_value config \<longrightarrow>
                    0 \<le> light \<and> light \<le> max_light_value config
                    \<and> (0 \<le> y \<and> y \<le> max_light_value config \<longrightarrow> light = y))"
    by auto
qed

text \<open>
  Claim C5, example: with the default bounds 1000 and 100, the pair \<open>(-1500.5, 250)\<close> is
  truncated to \<open>(-1500, 250)\<close> and clamped to \<open>(-1000, 100)\<close>.
\<close>

theorem validate_data_contract_witness:
  "py_int (PyFloat (Finite (- (3001 / 2)))) = Inr (- 1500) \<and> py_int (PyInt 250) = Inr 250 \<and>
   validate_data ObserverConfiguration_default (PyTuple [PyFloat (Finite (- (3001 / 2))), PyInt 250])
     = Some (- 1000, 100)"
proof -
  have h: "py_int (PyFloat (Finite (- (3001 / 2)))) = Inr (- 1500) \<and> py_int (PyInt 250) = Inr 250"
    by code_simp
  with validate_data_contract [of "PyTuple [PyFloat (Finite (- (3001 / 2))), PyInt 250]"
      ObserverConfiguration_default]
  show ?thesis by (simp add: ObserverConfiguration_default_def)
qed

subsection \<open>The link state\<close>







subsection \<open>The fail-safe stop\<close>

text \<open>
  \<^verbatim>\<open>self.current_speed\<close> of the observer is written in \<^verbatim>\<open>__init__\<close> only: the speed
  commanded last is kept in \<^verbatim>\<open>self.previous_speed\<close>. So the test
  \<^verbatim>\<open>if self.current_speed != 0\<close> of the branch "not connected" never holds in a run.
\<close>

lemma run_iteration_current_speed:
  "observer_current_speed (run_iteration config obs s) = observer_current_speed s"
  by (cases obs)
     (auto simp: run_iteration_def receive_data_def update_connection_status_def
        observer_update_motor_speeds_def update_lights_def observer_wait_def Let_def
        split: option.splits prod.splits)

lemma run_iterations_current_speed:
  "observer_current_speed (run_iterations config observations s) = observer_current_speed s"
  by (induction observations arbitrary: s) (simp_all add: run_iteration_current_speed)

lemma observer_run_current_speed:
  "observer_current_speed (observer_run config detect observations) = 0"
  by (simp add: observer_run_def run_iterations_current_speed update_connection_status_def
      ObserverHub_init_def observer_initialize_device_def)

lemma run_iteration_without_data:
  assumes "observer_current_speed s = 0" and "fst (receive_data config obs s) = None"
  shows "observer_previous_speed (run_iteration config obs s) = observer_previous_speed s
    \<and> observer_effects (run_iteration config obs s) =
        observer_effects s @
          [HubLightOn (if is_connected config (snd (receive_data config obs s))
                       then led_receiving config else led_not_receiving config), Wait 10]"
  using assms
  by (cases obs)
     (auto simp: run_iteration_def receive_data_def update_connection_status_def
        observer_wait_def Let_def split: option.splits prod.splits if_splits)

text \<open>
  Claim C1 against the code: the observer receives \<open>(50, 0)\<close> and commands speed 50 to both
  motors; the next two passes receive nothing, the link is down, and neither pass commands
  speed 0. The only effects of those passes are the status light and the 10 ms wait, and
  the motors keep the speed 50.
\<close>

theorem failsafe_stop_never_issued:
  "observer_effects
     (observer_run ObserverConfiguration_default (\<lambda>port. DC_MOTOR)
        [Returns (PyTuple [PyInt 50, PyInt 0]), Returns PyNone, Returns PyNone])
   = [HubLightOn (Color 60 100 50),
      HubLightOn (Color 120 100 30), MotorSetSpeed PortA 50, MotorSetSpeed PortB 50, Wait 10,
      HubLightOn (Color 60 100 50), Wait 10,
      HubLightOn (Color 60 100 50), Wait 10]
   \<and> observer_previous_speed
       (observer_run ObserverConfiguration_default (\<lambda>port. DC_MOTOR)
          [Returns (PyTuple [PyInt 50, PyInt 0]), Returns PyNone, Returns PyNone]) = 50
   \<and> \<not> is_connected ObserverConfiguration_default
       (observer_run ObserverConfiguration_default (\<lambda>port. DC_MOTOR)
          [Returns (PyTuple [PyInt 50, PyInt 0]), Returns PyNone, Returns PyNone])"
  by (simp add: observer_run_def run_iteration_def validate_data_def receive_data_def
      is_connected_def ObserverConfiguration_default_def update_connection_status_def
      ObserverHub_init_def observer_initialize_device_def observer_update_motor_speeds_def
      update_lights_def observer_wait_def)

section \<open>Properties of the primary hub\<close>

subsection \<open>The ramp\<close>

lemma tick_speed_legal:
  assumes "0 < min_speed profile" and "min_speed profile \<le> max_speed profile"
  shows "speed_legal profile (tick_speed profile direction v)"
  using assms
  by (auto simp: speed_legal_def tick_speed_def apply_speed_limits_def
      apply_minimum_speed_threshold_def)

lemma get_stopped_led_color_frame:
  "current_speed (snd (get_stopped_led_color sc s)) = current_speed s"
  "current_profile (snd (get_stopped_led_color sc s)) = current_profile s"
  "remote_connected (snd (get_stopped_led_color sc s)) = remote_connected s"
  "remote_present (snd (get_stopped_led_color sc s)) = remote_present s"
  "previous_speed (snd (get_stopped_led_color sc s)) = previous_speed s"
  "light_value (snd (get_stopped_led_color sc s)) = light_value s"
  "effects (snd (get_stopped_led_color sc s)) = effects s"
  by (simp_all add: get_stopped_led_color_def Let_def split: prod.splits)

lemma get_led_color_for_speed_frame:
  assumes "get_led_color_for_speed pct config speed s = Inr (c, s')"
  shows "current_speed s' = current_speed s" and "current_profile s' = current_profile s"
    and "remote_connected s' = remote_connected s" and "remote_present s' = remote_present s"
    and "previous_speed s' = previous_speed s" and "light_value s' = light_value s"
    and "effects s' = effects s"
  using assms get_stopped_led_color_frame [of "get_current_speed_led_config config s" s]
  by (auto simp: get_led_color_for_speed_def Let_def split: if_splits)

lemma update_motor_speeds_frame:
  assumes "update_motor_speeds pct config s = Inr s'"
  shows "current_speed s' = current_speed s" and "current_profile s' = current_profile s"
    and "light_value s' = light_value s"
  using assms
  by (auto simp: update_motor_speeds_def Let_def set_led_def broadcast_data_def
      split: if_splits sum.splits prod.splits dest: get_led_color_for_speed_frame)

lemma get_led_color_for_speed_returns:
  "max_speed (get_current_profile config s) \<noteq> 0 \<Longrightarrow>
     \<exists>r. get_led_color_for_speed pct config speed s = Inr r"
  by (simp add: get_led_color_for_speed_def Let_def)

lemma update_motor_speeds_returns:
  assumes "max_speed (get_current_profile config s) \<noteq> 0"
  shows "\<exists>s'. update_motor_speeds pct config s = Inr s'"
proof -
  let ?s1 = "s\<lparr>effects := effects s @
       [MotorSetSpeed PortA (current_speed s), MotorSetSpeed PortB (current_speed s)],
     previous_speed := current_speed s\<rparr>"
  from assms have "max_speed (get_current_profile config ?s1) \<noteq> 0"
    by (simp add: get_current_profile_def)
  then obtain r where "get_led_color_for_speed pct config (current_speed ?s1) ?s1 = Inr r"
    using get_led_color_for_speed_returns by blast
  then show ?thesis
    by (cases r) (simp add: update_motor_speeds_def Let_def)
qed

lemma accelerate_tick_speed:
  assumes "accelerate_tick pct config profile direction s = Inr s'"
  shows "current_speed s' = tick_speed profile direction (current_speed s)"
    and "current_profile s' = current_profile s"
  using assms
  by (auto simp: accelerate_tick_def wait_def split: sum.splits dest: update_motor_speeds_frame)

lemma accelerate_tick_returns:
  assumes "max_speed (get_current_profile config s) \<noteq> 0"
  shows "\<exists>s'. accelerate_tick pct config profile direction s = Inr s'"
proof -
  from assms
  have "max_speed (get_current_profile config
          (s\<lparr>current_speed := tick_speed profile direction (current_speed s)\<rparr>)) \<noteq> 0"
    by (simp add: get_current_profile_def)
  then obtain s1 where "update_motor_speeds pct config
      (s\<lparr>current_speed := tick_speed profile direction (current_speed s)\<rparr>) = Inr s1"
    using update_motor_speeds_returns by blast
  then show ?thesis by (simp add: accelerate_tick_def)
qed

lemma accelerate_loop_speed:
  "accelerate_loop n pct config profile direction s = Inr s' \<Longrightarrow>
     current_speed s' = loop_speed n profile direction (current_speed s)
     \<and> current_profile s' = current_profile s"
proof (induction n arbitrary: s)
  case 0
  then show ?case by simp
next
  case (Suc n)
  from Suc.prems obtain s1 where
    t: "accelerate_tick pct config profile direction s = Inr s1"
    by (auto split: sum.splits)
  note ts = accelerate_tick_speed [OF t]
  show ?case
  proof (cases "current_speed s1 = 0")
    case True
    with Suc.prems t ts show ?thesis by simp
  next
    case False
    with Suc.prems t have "accelerate_loop n pct config profile direction s1 = Inr s'"
      by simp
    from Suc.IH [OF this] False ts show ?thesis by simp
  qed
qed

lemma accelerate_loop_returns:
  "max_speed (get_current_profile config s) \<noteq> 0 \<Longrightarrow>
     \<exists>s'. accelerate_loop n pct config profile direction s = Inr s'"
proof (induction n arbitrary: s)
  case 0
  then show ?case by simp
next
  case (Suc n)
  from accelerate_tick_returns [OF Suc.prems] obtain s1 where
    t: "accelerate_tick pct config profile direction s = Inr s1" by blast
  from accelerate_tick_speed(2) [OF t] Suc.prems
  have "max_speed (get_current_profile config s1) \<noteq> 0"
    by (simp add: get_current_profile_def)
  from Suc.IH [OF this] t show ?case by auto
qed

lemma loop_speed_legal:
  assumes "0 < min_speed profile" and "min_speed profile \<le> max_speed profile"
    and "0 < n \<or> speed_legal profile v"
  shows "speed_legal profile (loop_speed n profile direction v)"
  using assms(3)
proof (induction n arbitrary: v)
  case 0
  then show ?case by simp
next
  case (Suc n)
  have l: "speed_legal profile (tick_speed profile direction v)"
    using assms(1,2) by (rule tick_speed_legal)
  show ?case
  proof (cases "tick_speed profile direction v = 0")
    case True
    with l show ?thesis by simp
  next
    case False
    with Suc.IH [of "tick_speed profile direction v"] l show ?thesis by simp
  qed
qed

lemma is_button_pressed_frame:
  "current_speed (snd (is_button_pressed env a s)) = current_speed s"
  "current_profile (snd (is_button_pressed env a s)) = current_profile s"
  "light_value (snd (is_button_pressed env a s)) = light_value s"
  "effects (snd (is_button_pressed env a s)) = effects s"
  "has_lights (snd (is_button_pressed env a s)) = has_lights s"
  by (simp_all add: is_button_pressed_def split: poll.splits)

lemma wait_for_release_frame:
  assumes ret: "wait_for_release env a s = Some s'"
  shows "current_speed s' = current_speed s \<and> current_profile s' = current_profile s"
proof (rule wait_for_release.raw_induct
    [where P = "\<lambda>env a s s'. current_speed s' = current_speed s \<and> current_profile s' = current_profile s",
      OF _ ret])
  fix f env a s s'
  assume IH: "\<And>env a s s'. f env a s = Some s' \<Longrightarrow>
      current_speed s' = current_speed s \<and> current_profile s' = current_profile s"
    and eq: "(case is_button_pressed env a s of
        (pressed, s1) \<Rightarrow> if pressed then f env a (wait 100 s1) else Some s1) = Some s'"
  obtain p s1 where b: "is_button_pressed env a s = (p, s1)" by (cases "is_button_pressed env a s")
  from is_button_pressed_frame(1,2) [of env a s] b
  have fr: "current_speed s1 = current_speed s" "current_profile s1 = current_profile s" by simp_all
  show "current_speed s' = current_speed s \<and> current_profile s' = current_profile s"
  proof (cases p)
    case True
    with eq b have "f env a (wait 100 s1) = Some s'" by simp
    from IH [OF this] fr show ?thesis by (simp add: wait_def)
  next
    case False
    with eq b fr show ?thesis by simp
  qed
qed

lemma accelerate_speed:
  assumes "accelerate pct env config profile direction s = Some (Inr s')"
  shows "current_speed s' = loop_speed (nat (acceleration_step profile)) profile direction (current_speed s)
    \<and> current_profile s' = current_profile s"
proof -
  from assms obtain s1 s2 where
    l: "accelerate_loop (nat (acceleration_step profile)) pct config profile direction s = Inr s1"
    and w1: "s2 = s1 \<or> wait_for_release env
        (if direction > 0 then button_mapping config KEY_UP else button_mapping config KEY_DOWN) s1 = Some s2"
    and w2: "s' = s2 \<or> wait_for_release env
        (if direction > 0 then button_mapping config KEY_UP else button_mapping config KEY_DOWN) s2 = Some s'"
    by (auto simp: accelerate_def Let_def split: sum.splits option.splits if_splits)
  from w1 have "current_speed s2 = current_speed s1 \<and> current_profile s2 = current_profile s1"
    by (auto dest: wait_for_release_frame)
  moreover from w2 have "current_speed s' = current_speed s2 \<and> current_profile s' = current_profile s2"
    by (auto dest: wait_for_release_frame)
  ultimately show ?thesis using accelerate_loop_speed [OF l] by simp
qed

text \<open>
  Claim C2: for every profile with \<open>0 < min_speed \<le> max_speed\<close> and every direction, the
  speed after each completed tick of \<^verbatim>\<open>_accelerate\<close> has magnitude at most \<open>max_speed\<close>
  and not strictly between 0 and \<open>min_speed\<close>; and so has the speed with which
  \<^verbatim>\<open>_accelerate\<close> returns, provided it ran at least one tick or started from such a speed.
\<close>

theorem accelerate_keeps_speed_legal:
  assumes "0 < min_speed profile" and "min_speed profile \<le> max_speed profile"
  shows "(accelerate_tick pct config profile direction s = Inr s1 \<longrightarrow>
            speed_legal profile (current_speed s1))
       \<and> (accelerate pct env config profile direction s = Some (Inr s')
            \<and> (0 < acceleration_step profile \<or> speed_legal profile (current_speed s))
          \<longrightarrow> speed_legal profile (current_speed s'))"
proof (intro conjI impI)
  assume "accelerate_tick pct config profile direction s = Inr s1"
  from accelerate_tick_speed(1) [OF this] tick_speed_legal [OF assms]
  show "speed_legal profile (current_speed s1)" by simp
next
  assume a: "accelerate pct env config profile direction s = Some (Inr s')
            \<and> (0 < acceleration_step profile \<or> speed_legal profile (current_speed s))"
  then have "0 < nat (acceleration_step profile) \<or> speed_legal profile (current_speed s)"
    by auto
  from loop_speed_legal [OF assms this] accelerate_speed [of pct env config profile direction s s'] a
  show "speed_legal profile (current_speed s')" by simp
qed

lemma loop_speed_example: "loop_speed 10 (profile_a Configuration_init) 1 0 = 29"
  by (simp add: eval_nat_numeral tick_speed_def apply_speed_limits_def
      apply_minimum_speed_threshold_def Configuration_init_def)

lemma accelerate_returns:
  assumes "auto_acceleration config" and "max_speed (get_current_profile config s) \<noteq> 0"
    and "loop_speed (nat (acceleration_step profile)) profile direction (current_speed s) \<noteq> 0"
  shows "\<exists>s'. accelerate pct env config profile direction s = Some (Inr s')"
proof -
  from accelerate_loop_returns [OF assms(2)] obtain s1 where
    l: "accelerate_loop (nat (acceleration_step profile)) pct config profile direction s = Inr s1"
    by blast
  from accelerate_loop_speed [OF l] assms(3) have "current_speed s1 \<noteq> 0" by simp
  with l assms(1) show ?thesis by (simp add: accelerate_def)
qed

text \<open>
  Claim C2, example: profile A of \<^verbatim>\<open>main_hub.py\<close> from standstill, direction \<open>+1\<close>; the
  tick and the whole call return, with a legal speed.
\<close>

theorem accelerate_keeps_speed_legal_witness:
  "0 < min_speed (profile_a Configuration_init)
   \<and> min_speed (profile_a Configuration_init) \<le> max_speed (profile_a Configuration_init)
   \<and> (\<exists>s1. accelerate_tick exact_pct Configuration_init (profile_a Configuration_init) 1 primary_start = Inr s1
          \<and> speed_legal (profile_a Configuration_init) (current_speed s1))
   \<and> (\<exists>s'. accelerate exact_pct idle_remote Configuration_init (profile_a Configuration_init) 1 primary_start
            = Some (Inr s')
          \<and> speed_legal (profile_a Configuration_init) (current_speed s'))"
proof -
  have p: "0 < min_speed (profile_a Configuration_init)"
    "min_speed (profile_a Configuration_init) \<le> max_speed (profile_a Configuration_init)"
    "0 < acceleration_step (profile_a Configuration_init)"
    by (simp_all add: Configuration_init_def)
  have m: "max_speed (get_current_profile Configuration_init primary_start) \<noteq> 0"
    by (simp add: get_current_profile_def Configuration_init_def primary_start_def connect_def
        MotorControlSystem_init_def initialize_device_def)
  have c: "current_speed primary_start = 0"
    by (simp add: primary_start_def connect_def MotorControlSystem_init_def initialize_device_def)
  from accelerate_tick_returns [OF m] obtain s1 where
    t: "accelerate_tick exact_pct Configuration_init (profile_a Configuration_init) 1 primary_start = Inr s1"
    by blast
  have "nat (acceleration_step (profile_a Configuration_init)) = 10"
    by (simp add: Configuration_init_def)
  with c loop_speed_example
  have "loop_speed (nat (acceleration_step (profile_a Configuration_init)))
          (profile_a Configuration_init) 1 (current_speed primary_start) \<noteq> 0"
    by simp
  from accelerate_returns [OF _ m this] obtain s' where
    a: "accelerate exact_pct idle_remote Configuration_init (profile_a Configuration_init) 1 primary_start
          = Some (Inr s')"
    by (auto simp: Configuration_init_def)
  from accelerate_keeps_speed_legal [OF p(1,2), of exact_pct Configuration_init 1 primary_start s1
      idle_remote s'] t a p(3)
  show ?thesis using p(1,2) by blast
qed

subsection \<open>Repeated calls\<close>

lemma accelerate_calls_speed:
  "accelerate_calls k pct env config profile direction s = Some (Inr s') \<Longrightarrow>
     current_speed s' =
       ((loop_speed (nat (acceleration_step profile)) profile direction) ^^ k) (current_speed s)
     \<and> current_profile s' = current_profile s"
proof (induction k arbitrary: s)
  case 0
  then show ?case by simp
next
  case (Suc k)
  from Suc.prems obtain s1 where
    a: "accelerate pct env config profile direction s = Some (Inr s1)"
    and r: "accelerate_calls k pct env config profile direction s1 = Some (Inr s')"
    by (auto split: option.splits sum.splits)
  from Suc.IH [OF r] accelerate_speed [OF a] show ?case
    by (simp add: funpow_swap1)
qed

lemma tick_speed_up_positive:
  assumes "0 < min_speed profile" and "min_speed profile \<le> max_speed profile" and "0 \<le> v"
  shows "0 < tick_speed profile 1 v"
  using assms
  by (auto simp: tick_speed_def apply_speed_limits_def apply_minimum_speed_threshold_def)

lemma loop_speed_up_positive:
  assumes "0 < min_speed profile" and "min_speed profile \<le> max_speed profile"
  shows "0 \<le> v \<Longrightarrow> 0 < n \<Longrightarrow> 0 < loop_speed n profile 1 v"
proof (induction n arbitrary: v)
  case 0
  then show ?case by simp
next
  case (Suc n)
  from tick_speed_up_positive [OF assms Suc.prems(1)]
  have t: "0 < tick_speed profile 1 v" .
  show ?case
  proof (cases n)
    case 0
    with t show ?thesis by simp
  next
    case (Suc m)
    with Suc.IH [of "tick_speed profile 1 v"] t show ?thesis by simp
  qed
qed

lemma accelerate_calls_returns:
  assumes "auto_acceleration config"
    and "0 < min_speed profile" and "min_speed profile \<le> max_speed profile"
    and "0 < acceleration_step profile"
  shows "max_speed (get_current_profile config s) \<noteq> 0 \<Longrightarrow> 0 \<le> current_speed s \<Longrightarrow>
     \<exists>s'. accelerate_calls k pct env config profile 1 s = Some (Inr s')"
proof (induction k arbitrary: s)
  case 0
  then show ?case by simp
next
  case (Suc k)
  from assms(4) have n: "0 < nat (acceleration_step profile)" by simp
  from loop_speed_up_positive [OF assms(2,3) Suc.prems(2) n]
  have pos: "0 < loop_speed (nat (acceleration_step profile)) profile 1 (current_speed s)" .
  then have "loop_speed (nat (acceleration_step profile)) profile 1 (current_speed s) \<noteq> 0" by simp
  from accelerate_returns [OF assms(1) Suc.prems(1) this] obtain s1 where
    a: "accelerate pct env config profile 1 s = Some (Inr s1)" by blast
  from accelerate_speed [OF a] pos Suc.prems(1)
  have "max_speed (get_current_profile config s1) \<noteq> 0" and "0 \<le> current_speed s1"
    by (simp_all add: get_current_profile_def)
  from Suc.IH [OF this] a show ?case by simp
qed

lemma funpow_loop_speed_legal:
  assumes "0 < min_speed profile" and "min_speed profile \<le> max_speed profile"
    and "speed_legal profile v"
  shows "speed_legal profile (((loop_speed n profile direction) ^^ k) v)"
proof (induction k)
  case 0
  with assms(3) show ?case by simp
next
  case (Suc k)
  from loop_speed_legal [OF assms(1,2), of n "((loop_speed n profile direction) ^^ k) v" direction] Suc
  show ?case by simp
qed

lemma ramp_speeds:
  "((loop_speed 10 \<lparr>min_speed = 20, max_speed = 100, acceleration_step = 10, acceleration_delay = 100\<rparr> 1) ^^ 10) 0 = 100"
  "((loop_speed 10 \<lparr>min_speed = 20, max_speed = 100, acceleration_step = 10, acceleration_delay = 100\<rparr> 1) ^^ 11) 0 = 100"
  by (simp_all add: eval_nat_numeral tick_speed_def apply_speed_limits_def
      apply_minimum_speed_threshold_def)

text \<open>
  Claim C6: from speed 0 with the profile \<open>{min_speed = 20, max_speed = 100,
  acceleration_step = 10, acceleration_delay = 100}\<close> and direction \<open>+1\<close>, the speed after
  10 calls of \<^verbatim>\<open>_accelerate\<close> is exactly 100, after an 11th call it is still exactly 100,
  and after no number of calls is it above 100. With auto-acceleration on (no wait for the
  button's release) and a non-zero \<open>max_speed\<close> in the active profile, the 10 and the 11
  calls do return. (The speeds after the calls are 29, 39, ..., 99, 100, 100, 100: the
  value 100 is first held after the ninth call.)
\<close>

theorem ramp_scenario:
  assumes "profile = \<lparr>min_speed = 20, max_speed = 100, acceleration_step = 10, acceleration_delay = 100\<rparr>"
    and "current_speed s = 0"
  shows "(\<forall>s'. accelerate_calls 10 pct env config profile 1 s = Some (Inr s') \<longrightarrow> current_speed s' = 100)
       \<and> (\<forall>s'. accelerate_calls 11 pct env config profile 1 s = Some (Inr s') \<longrightarrow> current_speed s' = 100)
       \<and> (\<forall>k s'. accelerate_calls k pct env config profile 1 s = Some (Inr s') \<longrightarrow> current_speed s' \<le> 100)
       \<and> (auto_acceleration config \<and> max_speed (get_current_profile config s) \<noteq> 0 \<longrightarrow>
            (\<exists>s'. accelerate_calls 10 pct env config profile 1 s = Some (Inr s'))
          \<and> (\<exists>s'. accelerate_calls 11 pct env config profile 1 s = Some (Inr s')))"
proof (intro conjI allI impI)
  fix s'
  assume "accelerate_calls 10 pct env config profile 1 s = Some (Inr s')"
  from accelerate_calls_speed [OF this] assms ramp_speeds(1)
  show "current_speed s' = 100" by simp
next
  fix s'
  assume "accelerate_calls 11 pct env config profile 1 s = Some (Inr s')"
  from accelerate_calls_speed [OF this] assms ramp_speeds(2)
  show "current_speed s' = 100" by simp
next
  fix k s'
  assume r: "accelerate_calls k pct env config profile 1 s = Some (Inr s')"
  have "speed_legal profile 0" by (simp add: speed_legal_def assms(1))
  from funpow_loop_speed_legal [OF _ _ this, where n = "nat (acceleration_step profile)"
      and direction = 1 and k = k]
    accelerate_calls_speed [OF r] assms
  have "speed_legal profile (current_speed s')" by simp
  then have "\<bar>current_speed s'\<bar> \<le> 100" by (simp add: speed_legal_def assms(1))
  then show "current_speed s' \<le> 100" by arith
next
  assume "auto_acceleration config \<and> max_speed (get_current_profile config s) \<noteq> 0"
  with accelerate_calls_returns [of config profile s 10 pct env] assms
  show "\<exists>s'. accelerate_calls 10 pct env config profile 1 s = Some (Inr s')" by simp
next
  assume "auto_acceleration config \<and> max_speed (get_current_profile config s) \<noteq> 0"
  with accelerate_calls_returns [of config profile s 11 pct env] assms
  show "\<exists>s'. accelerate_calls 11 pct env config profile 1 s = Some (Inr s')" by simp
qed

text \<open>Claim C6, example: the configuration and start state of \<^verbatim>\<open>main_hub.py\<close>.\<close>

theorem ramp_scenario_witness:
  "profile_a Configuration_init =
     \<lparr>min_speed = 20, max_speed = 100, acceleration_step = 10, acceleration_delay = 100\<rparr>
   \<and> current_speed primary_start = 0
   \<and> auto_acceleration Configuration_init
   \<and> max_speed (get_current_profile Configuration_init primary_start) \<noteq> 0
   \<and> (\<exists>s'. accelerate_calls 10 exact_pct idle_remote Configuration_init (profile_a Configuration_init) 1
              primary_start = Some (Inr s') \<and> current_speed s' = 100)
   \<and> (\<exists>s'. accelerate_calls 11 exact_pct idle_remote Configuration_init (profile_a Configuration_init) 1
              primary_start = Some (Inr s') \<and> current_speed s' = 100)"
proof -
  have p: "profile_a Configuration_init =
     \<lparr>min_speed = 20, max_speed = 100, acceleration_step = 10, acceleration_delay = 100\<rparr>"
    by (simp add: Configuration_init_def)
  have c: "current_speed primary_start = 0"
    by (simp add: primary_start_def connect_def MotorControlSystem_init_def initialize_device_def)
  have a: "auto_acceleration Configuration_init" by (simp add: Configuration_init_def)
  have m: "max_speed (get_current_profile Configuration_init primary_start) \<noteq> 0"
    by (simp add: get_current_profile_def Configuration_init_def primary_start_def connect_def
        MotorControlSystem_init_def initialize_device_def)
  from ramp_scenario [OF p c, of exact_pct idle_remote Configuration_init] a m
  show ?thesis using p c by blast
qed

subsection \<open>The deadband when decelerating\<close>

text \<open>
  Claim C3 against the code: one decelerating tick (direction \<open>-1\<close>) of profile A from
  \<open>+20 = +min_speed\<close> computes 19, which the first branch of the threshold block replaces
  by \<open>min_speed * (-1) = -20\<close>; the branch that sets the speed to 0 is reached only when the
  speed is already 0. The tick leaves \<open>-20\<close>, not 0 or \<open>+20\<close>, and a whole call from 29
  ends at \<open>-20\<close> without a tick at 0.
\<close>

theorem deceleration_reverses_at_min_speed:
  "tick_speed (profile_a Configuration_init) (- 1) 20 = - 20
   \<and> map_sum id current_speed
       (accelerate_tick exact_pct Configuration_init (profile_a Configuration_init) (- 1)
          (primary_start\<lparr>current_speed := 20, previous_speed := 20\<rparr>)) = Inr (- 20)
   \<and> loop_speed 10 (profile_a Configuration_init) (- 1) 29 = - 20"
  by (simp add: eval_nat_numeral tick_speed_def apply_speed_limits_def
      apply_minimum_speed_threshold_def Configuration_init_def accelerate_tick_def
      update_motor_speeds_def get_led_color_for_speed_def get_current_profile_def
      get_current_speed_led_config_def primary_start_def connect_def
      MotorControlSystem_init_def initialize_device_def set_led_def broadcast_data_def
      wait_def exact_pct_def)

text \<open>The same for every profile with \<open>1 < min_speed \<le> max_speed\<close>, in both directions.\<close>

lemma tick_speed_reverses:
  assumes "1 < min_speed profile" and "min_speed profile \<le> max_speed profile"
  shows "tick_speed profile (- 1) (min_speed profile) = - min_speed profile"
    and "tick_speed profile 1 (- min_speed profile) = min_speed profile"
  using assms
  by (auto simp: tick_speed_def apply_speed_limits_def apply_minimum_speed_threshold_def)

text \<open>The threshold block yields 0 only for a speed that is 0 already.\<close>

lemma apply_minimum_speed_threshold_zero:
  assumes "0 < min_speed profile"
  shows "apply_minimum_speed_threshold profile direction v = 0 \<longleftrightarrow> v = 0"
  using assms by (auto simp: apply_minimum_speed_threshold_def)

subsection \<open>LED colour\<close>



lemma get_stopped_led_color_idempotent:
  assumes "0 \<le> blink_interval_ms sc"
  shows "get_stopped_led_color sc (snd (get_stopped_led_color sc s)) = get_stopped_led_color sc s"
  using assms
  by (auto simp: get_stopped_led_color_def Timer_check_def Timer_start_def Let_def)

lemma get_stopped_led_color_depends:
  assumes "led_blink_state s = led_blink_state t"
    and "active (blink_timer s) = active (blink_timer t)"
    and "target_time (blink_timer s) = target_time (blink_timer t)"
    and "clock s - stopwatch (blink_timer s) = clock t - stopwatch (blink_timer t)"
  shows "fst (get_stopped_led_color sc s) = fst (get_stopped_led_color sc t)"
  using assms
  by (auto simp: get_stopped_led_color_def Timer_check_def Timer_start_def Let_def)

lemma get_led_color_for_speed_depends:
  assumes "current_profile s = current_profile t"
    and "led_blink_state s = led_blink_state t"
    and "active (blink_timer s) = active (blink_timer t)"
    and "target_time (blink_timer s) = target_time (blink_timer t)"
    and "clock s - stopwatch (blink_timer s) = clock t - stopwatch (blink_timer t)"
  shows "map_sum id fst (get_led_color_for_speed pct config speed s)
       = map_sum id fst (get_led_color_for_speed pct config speed t)"
proof -
  have "get_current_speed_led_config config s = get_current_speed_led_config config t"
    "get_current_profile config s = get_current_profile config t"
    using assms(1) by (simp_all add: get_current_speed_led_config_def get_current_profile_def)
  with assms(1) get_stopped_led_color_depends [OF assms(2-5), of "get_current_speed_led_config config t"]
  show ?thesis
    by (simp add: get_led_color_for_speed_def Let_def)
qed

text \<open>
  Claim C8: the colour returned by \<^verbatim>\<open>_get_led_color_for_speed\<close> is determined by the
  speed, the configuration, the active profile, the blink state, the blink timer's
  \<open>active\<close> and \<open>target_time\<close> and the time elapsed on its stopwatch: two states that agree
  on these give the same colour (or the same error), whatever their other fields. And with
  a non-negative blink interval, a second call of \<^verbatim>\<open>_get_stopped_led_color\<close> at the same
  clock reading returns the colour of the first, does not toggle the blink state again and
  leaves the state as the first call left it.
\<close>

theorem led_color_deterministic_blink_idempotent:
  "(current_profile s = current_profile t
      \<and> led_blink_state s = led_blink_state t
      \<and> active (blink_timer s) = active (blink_timer t)
      \<and> target_time (blink_timer s) = target_time (blink_timer t)
      \<and> clock s - stopwatch (blink_timer s) = clock t - stopwatch (blink_timer t)
    \<longrightarrow> map_sum id fst (get_led_color_for_speed pct config speed s)
        = map_sum id fst (get_led_color_for_speed pct config speed t))
   \<and> (0 \<le> blink_interval_ms speed_config \<longrightarrow>
        fst (get_stopped_led_color speed_config (snd (get_stopped_led_color speed_config s)))
          = fst (get_stopped_led_color speed_config s)
      \<and> led_blink_state (snd (get_stopped_led_color speed_config (snd (get_stopped_led_color speed_config s))))
          = led_blink_state (snd (get_stopped_led_color speed_config s))
      \<and> snd (get_stopped_led_color speed_config (snd (get_stopped_led_color speed_config s)))
          = snd (get_stopped_led_color speed_config s))"
  using get_led_color_for_speed_depends [of s t pct config speed]
    get_stopped_led_color_idempotent [of speed_config s]
  by simp

text \<open>
  Claim C8, example: the blink timer is due, the first call toggles to the indicator
  colour of profile A, the second call returns that colour again; and a state that differs
  in \<open>light_value\<close> and \<open>previous_speed\<close> only gives the same colour.
\<close>

theorem led_color_deterministic_blink_idempotent_witness:
  "0 \<le> blink_interval_ms (led_speed_profile_a Configuration_init)
   \<and> \<not> led_blink_state blink_due
   \<and> fst (get_stopped_led_color (led_speed_profile_a Configuration_init) blink_due) = Color 120 100 60
   \<and> fst (get_stopped_led_color (led_speed_profile_a Configuration_init)
            (snd (get_stopped_led_color (led_speed_profile_a Configuration_init) blink_due)))
       = Color 120 100 60
   \<and> current_profile blink_due = current_profile (blink_due\<lparr>light_value := 70, previous_speed := 5\<rparr>)
   \<and> map_sum id fst (get_led_color_for_speed exact_pct Configuration_init 0 blink_due)
       = map_sum id fst (get_led_color_for_speed exact_pct Configuration_init 0
            (blink_due\<lparr>light_value := 70, previous_speed := 5\<rparr>))"
proof -
  have i: "0 \<le> blink_interval_ms (led_speed_profile_a Configuration_init)"
    by (simp add: Configuration_init_def)
  have b: "\<not> led_blink_state blink_due"
    by (simp add: blink_due_def primary_start_def connect_def MotorControlSystem_init_def
        initialize_device_def)
  have c: "fst (get_stopped_led_color (led_speed_profile_a Configuration_init) blink_due) = Color 120 100 60"
    by (simp add: blink_due_def primary_start_def connect_def MotorControlSystem_init_def
        initialize_device_def get_stopped_led_color_def Timer_check_def Timer_start_def
        Configuration_init_def)
  from led_color_deterministic_blink_idempotent
    [of blink_due "blink_due\<lparr>light_value := 70, previous_speed := 5\<rparr>" exact_pct
      Configuration_init 0 "led_speed_profile_a Configuration_init"] i b c
  show ?thesis by simp
qed

subsection \<open>\<^verbatim>\<open>_update_motor_speeds\<close> without a change of speed\<close>

text \<open>
  Claim C10: when \<open>current_speed\<close> equals \<open>previous_speed\<close>, \<^verbatim>\<open>_update_motor_speeds\<close>
  returns normally with the state it was given: no effect is added (no \<^verbatim>\<open>set_speed\<close>, no
  remote LED update, no broadcast) and no field changes.
\<close>

theorem update_motor_speeds_unchanged_speed:
  assumes "current_speed s = previous_speed s"
  shows "update_motor_speeds pct config s = Inr s"
  using assms by (simp add: update_motor_speeds_def)

text \<open>
  Claim C10, example: commanding a stop (\<open>current_speed := 0\<close>) in the start state, which is
  already stopped, sends nothing.
\<close>

theorem update_motor_speeds_unchanged_speed_witness:
  "current_speed primary_start = previous_speed primary_start
   \<and> update_motor_speeds exact_pct Configuration_init (primary_start\<lparr>current_speed := 0\<rparr>)
       = Inr (primary_start\<lparr>current_speed := 0\<rparr>)
   \<and> effects primary_start = []"
proof -
  have h: "current_speed (primary_start\<lparr>current_speed := 0\<rparr>)
      = previous_speed (primary_start\<lparr>current_speed := 0\<rparr>)"
    "current_speed primary_start = previous_speed primary_start"
    "effects primary_start = []"
    by (simp_all add: primary_start_def connect_def MotorControlSystem_init_def initialize_device_def)
  from update_motor_speeds_unchanged_speed [OF h(1), of exact_pct Configuration_init] h(2,3)
  show ?thesis by simp
qed

subsection \<open>Light control\<close>

lemma is_button_pressed_steady:
  assumes "\<forall>k. env k = Pressed bs" and "remote_connected s" and "remote_present s"
  shows "fst (is_button_pressed env a s) = (BUTTON_MAP a \<in> set bs)"
    and "remote_connected (snd (is_button_pressed env a s))"
    and "remote_present (snd (is_button_pressed env a s))"
  using assms by (simp_all add: is_button_pressed_def)

lemma pressed_and_not_frame:
  "current_speed (snd (pressed_and_not env a b s)) = current_speed s"
  "light_value (snd (pressed_and_not env a b s)) = light_value s"
  "effects (snd (pressed_and_not env a b s)) = effects s"
  "has_lights (snd (pressed_and_not env a b s)) = has_lights s"
  using is_button_pressed_frame [of env a s]
    is_button_pressed_frame [of env b "snd (is_button_pressed env a s)"]
  by (auto simp: pressed_and_not_def split: prod.splits)

lemma pressed_and_not_steady:
  assumes "\<forall>k. env k = Pressed bs" and "remote_connected s" and "remote_present s"
  shows "fst (pressed_and_not env a b s) = (BUTTON_MAP a \<in> set bs \<and> BUTTON_MAP b \<notin> set bs)"
    and "remote_connected (snd (pressed_and_not env a b s))"
    and "remote_present (snd (pressed_and_not env a b s))"
  using is_button_pressed_steady [OF assms, of a]
    is_button_pressed_steady [OF assms(1), of "snd (is_button_pressed env a s)" b]
  by (auto simp: pressed_and_not_def split: prod.splits)

lemma light_control_settle_effects:
  "0 < w \<Longrightarrow> light_value (light_control_settle config w s) = light_value s
     \<and> effects (light_control_settle config w s)
         = effects s @ settle_effects config (light_control_settle config w s) w"
  by (simp add: light_control_settle_def settle_effects_def broadcast_data_def wait_def Let_def)

lemma light_control_settle_none: "light_control_settle config 0 s = s"
  by (simp add: light_control_settle_def)

lemma handle_light_control_outcome:
  "(light_value (handle_light_control env config s) = light_value s
      \<and> effects (handle_light_control env config s) = effects s)
   \<or> (light_value (handle_light_control env config s) = min 100 (light_value s + 10)
      \<and> effects (handle_light_control env config s)
          = effects s @ settle_effects config (handle_light_control env config s) 100)
   \<or> (light_value (handle_light_control env config s) = max 0 (light_value s - 10)
      \<and> effects (handle_light_control env config s)
          = effects s @ settle_effects config (handle_light_control env config s) 100)
   \<or> (light_value (handle_light_control env config s) = (if light_value s = 0 then 100 else 0)
      \<and> effects (handle_light_control env config s)
          = effects s @ settle_effects config (handle_light_control env config s) 300)"
proof -
  obtain up s1 where u: "pressed_and_not env (button_mapping config KEY_B_UP)
      (button_mapping config KEY_B_STOP) s = (up, s1)" by force
  obtain down s2 where d: "pressed_and_not env (button_mapping config KEY_B_DOWN)
      (button_mapping config KEY_B_STOP) s1 = (down, s2)" by force
  obtain toggle s3 where t: "is_button_pressed env (button_mapping config KEY_B_STOP) s2 = (toggle, s3)"
    by force
  from pressed_and_not_frame(2,3) [of env "button_mapping config KEY_B_UP"
      "button_mapping config KEY_B_STOP" s] u
  have f1: "light_value s1 = light_value s" "effects s1 = effects s" by simp_all
  from pressed_and_not_frame(2,3) [of env "button_mapping config KEY_B_DOWN"
      "button_mapping config KEY_B_STOP" s1] d f1
  have f2: "light_value s2 = light_value s" "effects s2 = effects s" by simp_all
  from is_button_pressed_frame(3,4) [of env "button_mapping config KEY_B_STOP" s2] t f2
  have f3: "light_value s3 = light_value s" "effects s3 = effects s" by simp_all
  have h: "handle_light_control env config s =
      (if up then light_control_settle config 100 (s1\<lparr>light_value := min 100 (light_value s1 + 10)\<rparr>)
       else if down then light_control_settle config 100 (s2\<lparr>light_value := max 0 (light_value s2 - 10)\<rparr>)
       else if toggle then light_control_settle config 300
              (s3\<lparr>light_value := (if light_value s3 = 0 then 100 else 0)\<rparr>)
       else s3)"
    using u d t by (simp add: handle_light_control_def Let_def light_control_settle_none)
  consider (U) up | (D) "\<not> up" down | (T) "\<not> up" "\<not> down" toggle | (N) "\<not> up" "\<not> down" "\<not> toggle"
    by blast
  then show ?thesis
  proof cases
    case U
    with h f1 light_control_settle_effects [of 100 config "s1\<lparr>light_value := min 100 (light_value s1 + 10)\<rparr>"]
    show ?thesis by simp
  next
    case D
    with h f2 light_control_settle_effects [of 100 config "s2\<lparr>light_value := max 0 (light_value s2 - 10)\<rparr>"]
    show ?thesis by simp
  next
    case T
    with h f3 light_control_settle_effects [of 300 config
        "s3\<lparr>light_value := (if light_value s3 = 0 then 100 else 0)\<rparr>"]
    show ?thesis by simp
  next
    case N
    with h f3 show ?thesis by simp
  qed
qed

lemma handle_light_control_range:
  assumes "0 \<le> light_value s" and "light_value s \<le> 100"
  shows "0 \<le> light_value (handle_light_control env config s)
       \<and> light_value (handle_light_control env config s) \<le> 100"
  using handle_light_control_outcome [where s = s and env = env and config = config] assms
  by (auto split: if_splits)

lemma handle_light_control_iterated_range:
  assumes "0 \<le> light_value s" and "light_value s \<le> 100"
  shows "0 \<le> light_value ((handle_light_control env config ^^ n) s)
       \<and> light_value ((handle_light_control env config ^^ n) s) \<le> 100"
proof (induction n)
  case 0
  with assms show ?case by simp
next
  case (Suc n)
  then show ?case
    using handle_light_control_range [where s = "(handle_light_control env config ^^ n) s"
        and env = env and config = config]
    by simp
qed

lemma handle_light_control_steady:
  assumes "\<forall>k. env k = Pressed bs" and "remote_connected s" and "remote_present s"
  shows "light_value (handle_light_control env config s) =
     (if BUTTON_MAP (button_mapping config KEY_B_UP) \<in> set bs
         \<and> BUTTON_MAP (button_mapping config KEY_B_STOP) \<notin> set bs
      then min 100 (light_value s + 10)
      else if BUTTON_MAP (button_mapping config KEY_B_DOWN) \<in> set bs
         \<and> BUTTON_MAP (button_mapping config KEY_B_STOP) \<notin> set bs
      then max 0 (light_value s - 10)
      else if BUTTON_MAP (button_mapping config KEY_B_STOP) \<in> set bs
      then (if light_value s = 0 then 100 else 0)
      else light_value s)"
proof -
  obtain up s1 where u: "pressed_and_not env (button_mapping config KEY_B_UP)
      (button_mapping config KEY_B_STOP) s = (up, s1)" by force
  obtain down s2 where d: "pressed_and_not env (button_mapping config KEY_B_DOWN)
      (button_mapping config KEY_B_STOP) s1 = (down, s2)" by force
  obtain toggle s3 where t: "is_button_pressed env (button_mapping config KEY_B_STOP) s2 = (toggle, s3)"
    by force
  from pressed_and_not_steady [OF assms, of "button_mapping config KEY_B_UP"
      "button_mapping config KEY_B_STOP"] u
    pressed_and_not_frame(2) [of env "button_mapping config KEY_B_UP"
      "button_mapping config KEY_B_STOP" s]
  have 1: "up = (BUTTON_MAP (button_mapping config KEY_B_UP) \<in> set bs
         \<and> BUTTON_MAP (button_mapping config KEY_B_STOP) \<notin> set bs)"
    "remote_connected s1" "remote_present s1" "light_value s1 = light_value s" by simp_all
  from pressed_and_not_steady [OF assms(1) 1(2,3), of "button_mapping config KEY_B_DOWN"
      "button_mapping config KEY_B_STOP"] d
    pressed_and_not_frame(2) [of env "button_mapping config KEY_B_DOWN"
      "button_mapping config KEY_B_STOP" s1] 1(4)
  have 2: "down = (BUTTON_MAP (button_mapping config KEY_B_DOWN) \<in> set bs
         \<and> BUTTON_MAP (button_mapping config KEY_B_STOP) \<notin> set bs)"
    "remote_connected s2" "remote_present s2" "light_value s2 = light_value s" by simp_all
  from is_button_pressed_steady(1) [OF assms(1) 2(2,3), of "button_mapping config KEY_B_STOP"] t
    is_button_pressed_frame(3) [of env "button_mapping config KEY_B_STOP" s2] 2(4)
  have 3: "toggle = (BUTTON_MAP (button_mapping config KEY_B_STOP) \<in> set bs)"
    "light_value s3 = light_value s" by simp_all
  have h: "handle_light_control env config s =
      (if up then light_control_settle config 100 (s1\<lparr>light_value := min 100 (light_value s1 + 10)\<rparr>)
       else if down then light_control_settle config 100 (s2\<lparr>light_value := max 0 (light_value s2 - 10)\<rparr>)
       else if toggle then light_control_settle config 300
              (s3\<lparr>light_value := (if light_value s3 = 0 then 100 else 0)\<rparr>)
       else s3)"
    using u d t by (simp add: handle_light_control_def Let_def light_control_settle_none)
  have lv: "\<And>w x. 0 < w \<Longrightarrow> light_value (light_control_settle config w x) = light_value x"
    using light_control_settle_effects by blast
  show ?thesis
    unfolding h using 1 2 3 by (simp add: lv)
qed

text \<open>
  Claim C9: from a light value in \<open>[0, 100]\<close>, the light value is in \<open>[0, 100]\<close> after any
  number of calls of \<^verbatim>\<open>_handle_light_control\<close>. One call does exactly one of four things:
  nothing (no effect at all); up, \<open>min 100 (light_value + 10)\<close>; down,
  \<open>max 0 (light_value - 10)\<close>; toggle, 100 if the value was 0 and 0 otherwise; and the last
  three send at most one broadcast, the brightness to the lights, and one settle delay (100,
  100, 300 ms). With a connected remote that reports the same held buttons at every poll,
  the action is chosen in the order up (B_UP without B_STOP), down (B_DOWN without B_STOP),
  toggle (B_STOP).
\<close>

theorem light_value_stays_in_range:
  "(0 \<le> light_value s \<and> light_value s \<le> 100 \<longrightarrow>
      (\<forall>n. 0 \<le> light_value ((handle_light_control env config ^^ n) s)
           \<and> light_value ((handle_light_control env config ^^ n) s) \<le> 100))
   \<and> ((light_value (handle_light_control env config s) = light_value s
          \<and> effects (handle_light_control env config s) = effects s)
       \<or> (light_value (handle_light_control env config s) = min 100 (light_value s + 10)
          \<and> effects (handle_light_control env config s)
              = effects s @ settle_effects config (handle_light_control env config s) 100)
       \<or> (light_value (handle_light_control env config s) = max 0 (light_value s - 10)
          \<and> effects (handle_light_control env config s)
              = effects s @ settle_effects config (handle_light_control env config s) 100)
       \<or> (light_value (handle_light_control env config s) = (if light_value s = 0 then 100 else 0)
          \<and> effects (handle_light_control env config s)
              = effects s @ settle_effects config (handle_light_control env config s) 300))
   \<and> ((\<forall>k. env k = Pressed held) \<and> remote_connected s \<and> remote_present s \<longrightarrow>
        light_value (handle_light_control env config s) =
          (if BUTTON_MAP (button_mapping config KEY_B_UP) \<in> set held
              \<and> BUTTON_MAP (button_mapping config KEY_B_STOP) \<notin> set held
           then min 100 (light_value s + 10)
           else if BUTTON_MAP (button_mapping config KEY_B_DOWN) \<in> set held
              \<and> BUTTON_MAP (button_mapping config KEY_B_STOP) \<notin> set held
           then max 0 (light_value s - 10)
           else if BUTTON_MAP (button_mapping config KEY_B_STOP) \<in> set held
           then (if light_value s = 0 then 100 else 0)
           else light_value s))"
  using handle_light_control_iterated_range [where s = s and env = env and config = config]
    handle_light_control_outcome [where s = s and env = env and config = config]
    handle_light_control_steady [where s = s and env = env and config = config and bs = held]
  by blast

text \<open>
  Claim C9, example: with the right plus button held, the value 95 becomes 100, and stays
  in range over three calls.
\<close>

theorem light_value_stays_in_range_witness:
  "0 \<le> light_value (primary_start\<lparr>light_value := 95\<rparr>)
   \<and> light_value (primary_start\<lparr>light_value := 95\<rparr>) \<le> 100
   \<and> (\<forall>k. brighter_held k = Pressed [RIGHT_PLUS])
   \<and> remote_connected (primary_start\<lparr>light_value := 95\<rparr>)
   \<and> remote_present (primary_start\<lparr>light_value := 95\<rparr>)
   \<and> light_value (handle_light_control brighter_held Configuration_init
        (primary_start\<lparr>light_value := 95\<rparr>)) = 100
   \<and> 0 \<le> light_value ((handle_light_control brighter_held Configuration_init ^^ 3)
        (primary_start\<lparr>light_value := 95\<rparr>))
   \<and> light_value ((handle_light_control brighter_held Configuration_init ^^ 3)
        (primary_start\<lparr>light_value := 95\<rparr>)) \<le> 100"
proof -
  have h: "0 \<le> light_value (primary_start\<lparr>light_value := 95\<rparr>)"
    "light_value (primary_start\<lparr>light_value := 95\<rparr>) \<le> 100"
    "\<forall>k. brighter_held k = Pressed [RIGHT_PLUS]"
    "remote_connected (primary_start\<lparr>light_value := 95\<rparr>)"
    "remote_present (primary_start\<lparr>light_value := 95\<rparr>)"
    by (simp_all add: primary_start_def connect_def MotorControlSystem_init_def
        initialize_device_def brighter_held_def)
  from light_value_stays_in_range [where s = "primary_start\<lparr>light_value := 95\<rparr>"
      and env = brighter_held and config = Configuration_init and held = "[RIGHT_PLUS]"] h
  show ?thesis by (simp add: Configuration_init_def)
qed

end
